theory Spec2Isabelle
  imports Complex_Main "HOL-Library.AList" "HOL-Library.Product_Lexorder"
begin

section \<open>Numbers\<close>

text \<open>
  Python floats are modelled as exact reals: every arithmetic step of the source is
  taken without rounding. The special values of IEEE arithmetic (the infinities and
  NaN) are modelled where a quotient of numpy floats can produce them (see \<open>fval\<close>
  below).
\<close>

section \<open>Configuration (config/config.py)\<close>

type_synonym symbol = string

definition FUTURES_SYMBOLS :: "symbol list" where
  "FUTURES_SYMBOLS = [''ES'', ''NQ'', ''YM'']"

definition FOREX_SYMBOLS :: "symbol list" where
  "FOREX_SYMBOLS = [''AUDUSD'', ''EURUSD'', ''GBPUSD'']"


definition MAX_DRAWDOWN_USD :: real where
  "MAX_DRAWDOWN_USD = 1500"

definition MAX_POSITIONS :: nat where
  "MAX_POSITIONS = 6"

record futures_spec =
  tick_size :: real
  tick_value :: real
  margin_requirement :: real

record forex_spec =
  pip_value :: real

definition FUTURES_SPECS :: "symbol \<Rightarrow> futures_spec option" where
  "FUTURES_SPECS symbol =
     (if symbol = ''ES'' then Some \<lparr>tick_size = 1 / 4, tick_value = 25 / 2, margin_requirement = 13200\<rparr>
      else if symbol = ''NQ'' then Some \<lparr>tick_size = 1 / 4, tick_value = 5, margin_requirement = 17600\<rparr>
      else if symbol = ''YM'' then Some \<lparr>tick_size = 1, tick_value = 5, margin_requirement = 8800\<rparr>
      else None)"

definition FOREX_SPECS :: "symbol \<Rightarrow> forex_spec option" where
  "FOREX_SPECS symbol =
     (if symbol = ''AUDUSD'' then Some \<lparr>pip_value = 1 / 10000\<rparr>
      else if symbol = ''EURUSD'' then Some \<lparr>pip_value = 1 / 10000\<rparr>
      else if symbol = ''GBPUSD'' then Some \<lparr>pip_value = 1 / 10000\<rparr>
      else None)"

section \<open>RiskManager (trading_core/risk_manager.py)\<close>

datatype py_error = KeyError | ValueError | ZeroDivisionError | IndexError

text \<open>
  A position and a trade record are Python dicts with a fixed set of keys. The wall
  clock read by \<open>datetime.now()\<close> is a parameter \<open>now\<close> of the operations that read it.
\<close>

record position =
  pos_symbol :: symbol
  pos_size :: int
  pos_direction :: string
  pos_entry_price :: real
  pos_stop_loss :: real
  pos_take_profit :: "real option"
  pos_entry_time :: nat
  pos_unrealized_pnl :: real
  pos_max_favorable :: real
  pos_max_adverse :: real

record trade =
  tr_symbol :: symbol
  tr_direction :: string
  tr_size :: int
  tr_entry_price :: real
  tr_exit_price :: real
  tr_entry_time :: nat
  tr_exit_time :: nat
  tr_realized_pnl :: real
  tr_max_favorable :: real
  tr_max_adverse :: real
  tr_exit_reason :: string

text \<open>
  \<open>positions\<close> is a dict keyed by symbol; it is kept as an association list in
  insertion order, the order in which Python iterates over it. \<open>AList.update\<close>
  replaces the value of a present key in place and appends a new key at the end,
  \<open>AList.delete\<close> is \<open>del\<close>.
\<close>

record risk_manager =
  initial_capital :: real
  current_capital :: real
  max_drawdown_reached :: real
  daily_pnl :: real
  positions :: "(symbol \<times> position) list"
  trade_history :: "trade list"

definition init_risk_manager :: "real \<Rightarrow> risk_manager" where
  "init_risk_manager capital =
     \<lparr>initial_capital = capital, current_capital = capital, max_drawdown_reached = 0,
      daily_pnl = 0, positions = [], trade_history = []\<rparr>"

definition has_position :: "risk_manager \<Rightarrow> symbol \<Rightarrow> bool" where
  "has_position s symbol = (symbol \<in> set (map fst (positions s)))"

definition check_correlation_limits :: "risk_manager \<Rightarrow> symbol \<Rightarrow> bool" where
  "check_correlation_limits s symbol =
     (if symbol \<in> set FUTURES_SYMBOLS
         \<and> 2 \<le> length (filter (\<lambda>k. k \<in> set FUTURES_SYMBOLS) (map fst (positions s)))
      then True
      else if symbol \<in> set FOREX_SYMBOLS
         \<and> 2 \<le> length (filter (\<lambda>k. k \<in> set FOREX_SYMBOLS) (map fst (positions s)))
      then True
      else False)"

definition check_risk_limits :: "risk_manager \<Rightarrow> symbol \<Rightarrow> int \<Rightarrow> real \<Rightarrow> bool" where
  "check_risk_limits s symbol position_size entry_price =
     (if MAX_POSITIONS \<le> length (positions s) then False
      else if has_position s symbol then False
      else if MAX_DRAWDOWN_USD \<le> initial_capital s - current_capital s then False
      else if check_correlation_limits s symbol then False
      else if position_size \<le> 0 then False
      else True)"

definition add_position ::
  "risk_manager \<Rightarrow> symbol \<Rightarrow> int \<Rightarrow> real \<Rightarrow> real \<Rightarrow> real option \<Rightarrow> string \<Rightarrow> nat
     \<Rightarrow> bool \<times> risk_manager" where
  "add_position s symbol position_size entry_price stop_loss take_profit direction now =
     (if \<not> check_risk_limits s symbol position_size entry_price then (False, s)
      else
        (True,
         s\<lparr>positions :=
             AList.update symbol
               \<lparr>pos_symbol = symbol, pos_size = position_size, pos_direction = direction,
                pos_entry_price = entry_price, pos_stop_loss = stop_loss,
                pos_take_profit = take_profit, pos_entry_time = now,
                pos_unrealized_pnl = 0, pos_max_favorable = 0, pos_max_adverse = 0\<rparr>
               (positions s)\<rparr>))"

text \<open>
  The body of \<open>update_position_pnl\<close> after the membership test: the position dict with
  its three P&L entries rewritten. A symbol that is in neither specification table
  raises \<open>KeyError\<close> at the table lookup, before anything is written.
\<close>

definition unrealized_pnl_of :: "symbol \<Rightarrow> position \<Rightarrow> real \<Rightarrow> py_error + real" where
  "unrealized_pnl_of symbol p current_price =
     (let price_diff = current_price - pos_entry_price p;
          price_diff = (if pos_direction p = ''SHORT'' then - price_diff else price_diff)
      in if symbol \<in> set FUTURES_SYMBOLS then
           (case FUTURES_SPECS symbol of
              None \<Rightarrow> Inl KeyError
            | Some specs \<Rightarrow>
                Inr (price_diff / tick_size specs * tick_value specs * real_of_int (pos_size p)))
         else
           (case FOREX_SPECS symbol of
              None \<Rightarrow> Inl KeyError
            | Some specs \<Rightarrow>
                Inr (price_diff / pip_value specs * 10 * (real_of_int (pos_size p) / 100000))))"

definition mark_position :: "position \<Rightarrow> real \<Rightarrow> position" where
  "mark_position p unrealized_pnl =
     (let p = p\<lparr>pos_unrealized_pnl := unrealized_pnl\<rparr>;
          p = (if pos_max_favorable p < unrealized_pnl
               then p\<lparr>pos_max_favorable := unrealized_pnl\<rparr> else p);
          p = (if unrealized_pnl < pos_max_adverse p
               then p\<lparr>pos_max_adverse := unrealized_pnl\<rparr> else p)
      in p)"

definition update_position_pnl ::
  "risk_manager \<Rightarrow> symbol \<Rightarrow> real \<Rightarrow> py_error + risk_manager" where
  "update_position_pnl s symbol current_price =
     (case map_of (positions s) symbol of
        None \<Rightarrow> Inr s
      | Some p \<Rightarrow>
          (case unrealized_pnl_of symbol p current_price of
             Inl e \<Rightarrow> Inl e
           | Inr u \<Rightarrow> Inr (s\<lparr>positions := AList.update symbol (mark_position p u) (positions s)\<rparr>)))"

definition check_stop_loss :: "risk_manager \<Rightarrow> symbol \<Rightarrow> real \<Rightarrow> bool" where
  "check_stop_loss s symbol current_price =
     (case map_of (positions s) symbol of
        None \<Rightarrow> False
      | Some p \<Rightarrow>
          (if pos_direction p = ''LONG'' \<and> current_price \<le> pos_stop_loss p then True
           else if pos_direction p = ''SHORT'' \<and> pos_stop_loss p \<le> current_price then True
           else False))"

definition check_take_profit :: "risk_manager \<Rightarrow> symbol \<Rightarrow> real \<Rightarrow> bool" where
  "check_take_profit s symbol current_price =
     (case map_of (positions s) symbol of
        None \<Rightarrow> False
      | Some p \<Rightarrow>
          (case pos_take_profit p of
             None \<Rightarrow> False
           | Some take_profit \<Rightarrow>
               (if pos_direction p = ''LONG'' \<and> take_profit \<le> current_price then True
                else if pos_direction p = ''SHORT'' \<and> current_price \<le> take_profit then True
                else False)))"

text \<open>
  \<open>close_position\<close> returns the empty dict (\<open>None\<close>) when the symbol has no position.
  Otherwise it calls \<open>update_position_pnl\<close> at the exit price; the call writes into the
  very dict that the local variable \<open>position\<close> refers to, so what is read from
  \<open>position\<close> afterwards is \<open>mark_position\<close> of the stored position, and a \<open>KeyError\<close>
  of the call leaves \<open>close_position\<close> before anything is changed. Then the realized
  P&L is added to the capital, the trade record is appended and the position deleted.
\<close>

definition close_position ::
  "risk_manager \<Rightarrow> symbol \<Rightarrow> real \<Rightarrow> string \<Rightarrow> nat \<Rightarrow> py_error + (trade option \<times> risk_manager)" where
  "close_position s symbol exit_price reason now =
     (case map_of (positions s) symbol of
        None \<Rightarrow> Inr (None, s)
      | Some p0 \<Rightarrow>
          (case unrealized_pnl_of symbol p0 exit_price of
             Inl e \<Rightarrow> Inl e
           | Inr u \<Rightarrow>
               (let p = mark_position p0 u;
                    realized_pnl = pos_unrealized_pnl p;
                    trade_record =
                      \<lparr>tr_symbol = symbol, tr_direction = pos_direction p, tr_size = pos_size p,
                       tr_entry_price = pos_entry_price p, tr_exit_price = exit_price,
                       tr_entry_time = pos_entry_time p, tr_exit_time = now,
                       tr_realized_pnl = realized_pnl,
                       tr_max_favorable = pos_max_favorable p,
                       tr_max_adverse = pos_max_adverse p, tr_exit_reason = reason\<rparr>
                in Inr (Some trade_record,
                        s\<lparr>current_capital := current_capital s + realized_pnl,
                          trade_history := trade_history s @ [trade_record],
                          positions := AList.delete symbol (positions s)\<rparr>))))"





section \<open>Properties of RiskManager\<close>

lemma has_position_map_of: "has_position s symbol \<longleftrightarrow> map_of (positions s) symbol \<noteq> None"
  by (simp add: has_position_def map_of_eq_None_iff)

text \<open>
  C10: when the instrument has no open position, \<open>close_position\<close> returns the empty
  result and the RiskManager (capital, position table, trade history and every other
  field) is exactly as before the call.
\<close>

theorem close_position_absent_unchanged:
  assumes "\<not> has_position s symbol"
  shows "close_position s symbol exit_price reason now = Inr (None, s)"
  using assms by (simp add: close_position_def has_position_map_of)

theorem close_position_absent_unchanged_witness:
  "\<not> has_position (init_risk_manager 100000) ''ES''
   \<and> close_position (init_risk_manager 100000) ''ES'' 4500 ''MANUAL'' 7
       = Inr (None, init_risk_manager 100000)"
  using close_position_absent_unchanged [of "init_risk_manager 100000" "''ES''" 4500 "''MANUAL''" 7]
  by (simp add: has_position_def init_risk_manager_def)

text \<open>
  C6: \<open>add_position\<close> returns false and leaves the RiskManager as it was whenever the
  number of open positions has reached \<open>MAX_POSITIONS\<close>, the instrument already has an
  open position, the drawdown (initial minus current capital) has reached
  \<open>MAX_DRAWDOWN_USD\<close>, two positions of the instrument's class (futures or forex) are
  already open, or the size is not positive. In particular, after an accepted entry a
  second call for the same instrument is rejected, whatever its other arguments.
\<close>

theorem add_position_rejects:
  "(MAX_POSITIONS \<le> length (positions s)
      \<or> has_position s symbol
      \<or> MAX_DRAWDOWN_USD \<le> initial_capital s - current_capital s
      \<or> (symbol \<in> set FUTURES_SYMBOLS
           \<and> 2 \<le> length (filter (\<lambda>k. k \<in> set FUTURES_SYMBOLS) (map fst (positions s))))
      \<or> (symbol \<in> set FOREX_SYMBOLS
           \<and> 2 \<le> length (filter (\<lambda>k. k \<in> set FOREX_SYMBOLS) (map fst (positions s))))
      \<or> position_size \<le> 0
    \<longrightarrow> add_position s symbol position_size entry_price stop_loss take_profit direction now
          = (False, s))
   \<and> (fst (add_position s symbol position_size entry_price stop_loss take_profit direction now)
    \<longrightarrow> add_position
            (snd (add_position s symbol position_size entry_price stop_loss take_profit direction now))
            symbol position_size' entry_price' stop_loss' take_profit' direction' now'
          = (False,
             snd (add_position s symbol position_size entry_price stop_loss take_profit direction now)))"
proof (intro conjI impI)
  assume "MAX_POSITIONS \<le> length (positions s)
      \<or> has_position s symbol
      \<or> MAX_DRAWDOWN_USD \<le> initial_capital s - current_capital s
      \<or> (symbol \<in> set FUTURES_SYMBOLS
           \<and> 2 \<le> length (filter (\<lambda>k. k \<in> set FUTURES_SYMBOLS) (map fst (positions s))))
      \<or> (symbol \<in> set FOREX_SYMBOLS
           \<and> 2 \<le> length (filter (\<lambda>k. k \<in> set FOREX_SYMBOLS) (map fst (positions s))))
      \<or> position_size \<le> 0"
  then have "\<not> check_risk_limits s symbol position_size entry_price"
    by (auto simp: check_risk_limits_def check_correlation_limits_def)
  then show "add_position s symbol position_size entry_price stop_loss take_profit direction now
          = (False, s)"
    by (simp add: add_position_def)
next
  let ?r = "add_position s symbol position_size entry_price stop_loss take_profit direction now"
  assume "fst ?r"
  then have "has_position (snd ?r) symbol"
    by (auto simp: add_position_def has_position_def AList.dom_update split: if_splits)
  then have "\<not> check_risk_limits (snd ?r) symbol position_size' entry_price'"
    by (simp add: check_risk_limits_def)
  then show "add_position (snd ?r) symbol position_size' entry_price' stop_loss' take_profit'
               direction' now' = (False, snd ?r)"
    by (simp add: add_position_def)
qed

theorem add_position_rejects_witness:
  "has_position (snd (add_position (init_risk_manager 100000) ''ES'' 2 4500 4480 (Some 4550) ''LONG'' 1)) ''ES''
   \<and> add_position (snd (add_position (init_risk_manager 100000) ''ES'' 2 4500 4480 (Some 4550) ''LONG'' 1))
        ''ES'' 2 4500 4480 (Some 4550) ''LONG'' 1
      = (False, snd (add_position (init_risk_manager 100000) ''ES'' 2 4500 4480 (Some 4550) ''LONG'' 1))
   \<and> fst (add_position (init_risk_manager 100000) ''ES'' 2 4500 4480 (Some 4550) ''LONG'' 1)
   \<and> add_position (snd (add_position (init_risk_manager 100000) ''ES'' 2 4500 4480 (Some 4550) ''LONG'' 1))
        ''ES'' 5 4600 4580 None ''SHORT'' 2
      = (False, snd (add_position (init_risk_manager 100000) ''ES'' 2 4500 4480 (Some 4550) ''LONG'' 1))"
proof -
  let ?s0 = "init_risk_manager 100000"
  let ?r = "add_position ?s0 ''ES'' 2 4500 4480 (Some 4550) ''LONG'' 1"
  have ok: "fst ?r"
    by (simp add: add_position_def check_risk_limits_def check_correlation_limits_def
        has_position_def init_risk_manager_def MAX_POSITIONS_def MAX_DRAWDOWN_USD_def)
  have hp: "has_position (snd ?r) ''ES''"
    using ok by (auto simp: add_position_def has_position_def AList.dom_update split: if_splits)
  from add_position_rejects [of "snd ?r" "''ES''" 2 4500 4480 "Some 4550" "''LONG''" 1] hp
  have a: "add_position (snd ?r) ''ES'' 2 4500 4480 (Some 4550) ''LONG'' 1 = (False, snd ?r)"
    by blast
  from add_position_rejects [of ?s0 "''ES''" 2 4500 4480 "Some 4550" "''LONG''" 1
      5 4600 4580 None "''SHORT''" 2] ok
  have b: "add_position (snd ?r) ''ES'' 5 4600 4580 None ''SHORT'' 2 = (False, snd ?r)"
    by blast
  show ?thesis using ok hp a b by blast
qed

subsection \<open>Capital and the trade history\<close>








section \<open>PowerOfThree (ict_strategy/ict_po3.py)\<close>

subsection \<open>Formatting a float with five decimals and reading it back\<close>

text \<open>
  \<open>f"{x:.5f}"\<close> prints the sign, the integer part and exactly five decimals of the
  value rounded to the nearest multiple of \<open>10\<^sup>-\<^sup>5\<close>, ties to even. \<open>int(s)\<close> reads an
  optional minus sign followed by digits and raises \<open>ValueError\<close> on anything else.
\<close>

definition round_half_even :: "real \<Rightarrow> int" where
  "round_half_even y =
     (let f = \<lfloor>y\<rfloor>; d = y - of_int f
      in if d < 1 / 2 then f else if 1 / 2 < d then f + 1 else if even f then f else f + 1)"

definition digit_char :: "nat \<Rightarrow> char" where
  "digit_char d = ''0123456789'' ! d"

fun digits_of :: "nat \<Rightarrow> string" where
  "digits_of n = (if n < 10 then [digit_char n] else digits_of (n div 10) @ [digit_char (n mod 10)])"

declare digits_of.simps [simp del]

definition format_5f :: "real \<Rightarrow> string" where
  "format_5f x =
     (let n = nat (round_half_even (\<bar>x\<bar> * 100000));
          whole = digits_of (n div 100000);
          frac = digits_of (n mod 100000);
          frac = replicate (5 - length frac) (CHR ''0'') @ frac
      in (if x < 0 then ''-'' else []) @ whole @ ''.'' @ frac)"

definition is_digit :: "char \<Rightarrow> bool" where
  "is_digit c = (48 \<le> (of_char c :: nat) \<and> (of_char c :: nat) \<le> 57)"

definition nat_of_digits :: "string \<Rightarrow> nat" where
  "nat_of_digits ds = foldl (\<lambda>a c. 10 * a + (of_char c - 48)) 0 ds"

definition py_int :: "string \<Rightarrow> py_error + int" where
  "py_int s =
     (let negative = (s \<noteq> [] \<and> hd s = CHR ''-'');
          ds = (if negative then tl s else s)
      in if ds \<noteq> [] \<and> list_all is_digit ds
         then Inr (if negative then - int (nat_of_digits ds) else int (nat_of_digits ds))
         else Inl ValueError)"

text \<open>\<open>int(x)\<close> of a float truncates toward zero.\<close>

definition py_trunc :: "real \<Rightarrow> int" where
  "py_trunc x = (if 0 \<le> x then \<lfloor>x\<rfloor> else \<lceil>x\<rceil>)"

subsection \<open>The dealing range\<close>

record dealing_range =
  range_low :: real
  range_high :: real
  equilibrium :: real
  premium_threshold :: real
  discount_threshold :: real
  po3_size :: int
  dr_current_price :: real

text \<open>
  \<open>//\<close> on Python integers is floor division, as \<open>div\<close> on \<open>int\<close> is, and raises
  \<open>ZeroDivisionError\<close> for a zero divisor.
\<close>

definition calculate_dealing_range :: "real \<Rightarrow> int \<Rightarrow> string \<Rightarrow> py_error + dealing_range" where
  "calculate_dealing_range current_price po3_number asset_type =
     (case (if asset_type = ''forex''
            then py_int (take 5 (filter (\<lambda>c. c \<noteq> CHR ''.'') (format_5f current_price)))
            else Inr (py_trunc current_price)) of
        Inl e \<Rightarrow> Inl e
      | Inr base_price \<Rightarrow>
          if po3_number = 0 then Inl ZeroDivisionError
          else
            (let decimal_places = (if asset_type = ''forex'' then 5 else 0 :: nat);
                 range_low_int = (base_price div po3_number) * po3_number;
                 range_high_int = range_low_int + po3_number;
                 range_low = (if asset_type = ''forex''
                              then real_of_int range_low_int / 10 ^ (decimal_places - 1)
                              else real_of_int range_low_int);
                 range_high = (if asset_type = ''forex''
                               then real_of_int range_high_int / 10 ^ (decimal_places - 1)
                               else real_of_int range_high_int);
                 equilibrium = (range_low + range_high) / 2;
                 premium_threshold = range_low + real_of_int po3_number * (67 / 100);
                 discount_threshold = range_low + real_of_int po3_number * (33 / 100);
                 premium_threshold = (if asset_type = ''forex''
                                      then premium_threshold / 10 ^ (decimal_places - 1)
                                      else premium_threshold);
                 discount_threshold = (if asset_type = ''forex''
                                       then discount_threshold / 10 ^ (decimal_places - 1)
                                       else discount_threshold)
             in Inr \<lparr>range_low = range_low, range_high = range_high, equilibrium = equilibrium,
                     premium_threshold = premium_threshold,
                     discount_threshold = discount_threshold, po3_size = po3_number,
                     dr_current_price = current_price\<rparr>))"

subsection \<open>Properties of the dealing range\<close>

lemma format_5f_example: "format_5f (217 / 200) = ''1.08500''"
  by (simp add: format_5f_def round_half_even_def Let_def digit_char_def digits_of.simps)

text \<open>
  Outside the forex branch the five levels are ordered, for every positive PO3 number.
\<close>

lemma dealing_range_ordered_non_forex:
  assumes "calculate_dealing_range current_price po3_number asset_type = Inr r"
    and "asset_type \<noteq> ''forex''" and "0 < po3_number"
  shows "range_low r \<le> discount_threshold r \<and> discount_threshold r \<le> equilibrium r
         \<and> equilibrium r \<le> premium_threshold r \<and> premium_threshold r \<le> range_high r"
  using assms by (auto simp: calculate_dealing_range_def Let_def split: if_splits)

text \<open>
  C1: the claimed order \<open>range_low \<le> discount_threshold \<le> equilibrium \<le>
  premium_threshold \<le> range_high\<close> fails in the forex branch. There \<open>range_low\<close> is
  already divided by \<open>10\<^sup>4\<close> when the thresholds are formed from it and from the
  unscaled PO3 number, and the sum is divided by \<open>10\<^sup>4\<close> once more: for the price
  1.08500 and the PO3 number 81 the range is [1.0773, 1.0854] while the discount and
  premium thresholds are about 0.0028 and 0.0055, both below \<open>range_low\<close>.
\<close>

theorem dealing_range_forex_thresholds_below_range:
  "calculate_dealing_range (217 / 200) 81 ''forex''
     = Inr \<lparr>range_low = 10773 / 10000, range_high = 10854 / 10000,
            equilibrium = 21627 / 20000, premium_threshold = 553473 / 100000000,
            discount_threshold = 278073 / 100000000, po3_size = 81,
            dr_current_price = 217 / 200\<rparr>
   \<and> (278073 / 100000000 :: real) < 10773 / 10000
   \<and> (553473 / 100000000 :: real) < 21627 / 20000"
  by (simp add: calculate_dealing_range_def format_5f_example Let_def py_int_def is_digit_def
      nat_of_digits_def)

section \<open>Bars\<close>

text \<open>
  A bar is one row of the OHLCV data frame. Its index entry is a timestamp, of which
  the code reads the calendar date (a day number here) and the time of day (seconds
  since midnight here); the data frames are taken to be timezone-naive.
\<close>

record bar =
  bar_date :: int
  bar_time :: nat
  bar_open :: real
  bar_high :: real
  bar_low :: real
  bar_close :: real
  bar_volume :: real

definition bar_timestamp :: "bar \<Rightarrow> int \<times> nat" where
  "bar_timestamp b = (bar_date b, bar_time b)"

definition time_of_day :: "nat \<Rightarrow> nat \<Rightarrow> nat" where
  "time_of_day h m = h * 3600 + m * 60"

section \<open>AMDCycles (ict_strategy/ict_amd_cycles.py)\<close>

record session =
  session_start :: nat
  session_end :: nat
  duration_hours :: nat
  session_phase :: string

definition session_times :: "(string \<times> session) list" where
  "session_times =
     [(''asian'', \<lparr>session_start = time_of_day 20 0, session_end = time_of_day 5 0,
                   duration_hours = 9, session_phase = ''accumulation''\<rparr>),
      (''london'', \<lparr>session_start = time_of_day 5 0, session_end = time_of_day 11 0,
                    duration_hours = 6, session_phase = ''manipulation''\<rparr>),
      (''new_york'', \<lparr>session_start = time_of_day 11 0, session_end = time_of_day 20 0,
                      duration_hours = 9, session_phase = ''distribution''\<rparr>)]"

record amd_phase =
  phase_start :: "(int \<times> nat) option"
  phase_end :: "(int \<times> nat) option"
  phase_data :: "bar list"

record amd_cycle =
  cycle_date :: int
  accumulation :: amd_phase
  manipulation :: amd_phase
  distribution :: amd_phase

definition empty_phase :: amd_phase where
  "empty_phase = \<lparr>phase_start = None, phase_end = None, phase_data = []\<rparr>"

text \<open>\<open>amd_cycle[phase] = ...\<close> for the three phase keys.\<close>

definition put_phase :: "string \<Rightarrow> amd_phase \<Rightarrow> amd_cycle \<Rightarrow> amd_cycle" where
  "put_phase phase v c =
     (if phase = ''accumulation'' then c\<lparr>accumulation := v\<rparr>
      else if phase = ''manipulation'' then c\<lparr>manipulation := v\<rparr>
      else if phase = ''distribution'' then c\<lparr>distribution := v\<rparr>
      else c)"

definition session_data :: "string \<Rightarrow> session \<Rightarrow> bar list \<Rightarrow> bar list" where
  "session_data session_name session_info day_data =
     (if session_name = ''asian''
      then filter (\<lambda>b. session_start session_info \<le> bar_time b
                        \<or> bar_time b \<le> session_end session_info) day_data
      else filter (\<lambda>b. session_start session_info \<le> bar_time b
                        \<and> bar_time b \<le> session_end session_info) day_data)"

definition fill_session :: "bar list \<Rightarrow> string \<times> session \<Rightarrow> amd_cycle \<Rightarrow> amd_cycle" where
  "fill_session day_data entry c =
     (let sd = session_data (fst entry) (snd entry) day_data
      in if sd = [] then c
         else put_phase (session_phase (snd entry))
                \<lparr>phase_start = Some (bar_timestamp (hd sd)),
                 phase_end = Some (bar_timestamp (last sd)), phase_data = sd\<rparr> c)"

text \<open>
  The result is the empty dict (\<open>None\<close>) when the target date has no bar.
  \<open>data.index[-1]\<close> raises \<open>IndexError\<close> on an empty frame.
\<close>

definition identify_daily_amd_cycle :: "bar list \<Rightarrow> int option \<Rightarrow> py_error + amd_cycle option" where
  "identify_daily_amd_cycle data target_date =
     (case (case target_date of
              Some d \<Rightarrow> Inr d
            | None \<Rightarrow> (if data = [] then Inl IndexError else Inr (bar_date (last data)))) of
        Inl e \<Rightarrow> Inl e
      | Inr d \<Rightarrow>
          (let day_data = filter (\<lambda>b. bar_date b = d) data
           in if day_data = [] then Inr None
              else Inr (Some (fold (fill_session day_data) session_times
                     \<lparr>cycle_date = d, accumulation = empty_phase, manipulation = empty_phase,
                      distribution = empty_phase\<rparr>))))"

text \<open>A bar with all four prices equal, for examples.\<close>

definition flat_bar :: "int \<Rightarrow> nat \<Rightarrow> real \<Rightarrow> bar" where
  "flat_bar d t p =
     \<lparr>bar_date = d, bar_time = t, bar_open = p, bar_high = p, bar_low = p, bar_close = p,
      bar_volume = 0\<rparr>"

definition four_hour_day :: "bar list" where
  "four_hour_day =
     [flat_bar 1 (time_of_day 0 0) 100, flat_bar 1 (time_of_day 4 0) 100,
      flat_bar 1 (time_of_day 8 0) 100, flat_bar 1 (time_of_day 12 0) 100,
      flat_bar 1 (time_of_day 16 0) 100, flat_bar 1 (time_of_day 20 0) 100]"

subsection \<open>Properties of the daily cycle\<close>

text \<open>
  C8: the three phases do not partition the day. Both ends of every window are
  inclusive, so a bar stamped exactly 05:00, 11:00 or 20:00 is put into two phases.
  On a day of four-hour bars (00:00, 04:00, ..., 20:00) the 20:00 bar is in the
  accumulation data and in the distribution data.
\<close>

theorem amd_phases_overlap_at_boundary:
  "\<exists>c. identify_daily_amd_cycle four_hour_day None = Inr (Some c)
     \<and> phase_data (accumulation c)
         = [flat_bar 1 (time_of_day 0 0) 100, flat_bar 1 (time_of_day 4 0) 100,
            flat_bar 1 (time_of_day 20 0) 100]
     \<and> phase_data (manipulation c) = [flat_bar 1 (time_of_day 8 0) 100]
     \<and> phase_data (distribution c)
         = [flat_bar 1 (time_of_day 12 0) 100, flat_bar 1 (time_of_day 16 0) 100,
            flat_bar 1 (time_of_day 20 0) 100]
     \<and> flat_bar 1 (time_of_day 20 0) 100
         \<in> set (phase_data (accumulation c)) \<inter> set (phase_data (distribution c))"
  by (simp add: identify_daily_amd_cycle_def four_hour_day_def flat_bar_def time_of_day_def
      session_times_def fill_session_def session_data_def put_phase_def empty_phase_def
      bar_timestamp_def Let_def)

text \<open>
  What does hold: each phase holds the day's bars of its window, the three phases
  together hold every bar of the day, and they are pairwise disjoint as soon as no
  bar of the day is stamped exactly 05:00, 11:00 or 20:00.
\<close>

lemma amd_cycle_phase_data:
  assumes "identify_daily_amd_cycle data target_date = Inr (Some c)"
  obtains d where "cycle_date c = d"
    and "phase_data (accumulation c)
          = filter (\<lambda>b. time_of_day 20 0 \<le> bar_time b \<or> bar_time b \<le> time_of_day 5 0)
              (filter (\<lambda>b. bar_date b = d) data)"
    and "phase_data (manipulation c)
          = filter (\<lambda>b. time_of_day 5 0 \<le> bar_time b \<and> bar_time b \<le> time_of_day 11 0)
              (filter (\<lambda>b. bar_date b = d) data)"
    and "phase_data (distribution c)
          = filter (\<lambda>b. time_of_day 11 0 \<le> bar_time b \<and> bar_time b \<le> time_of_day 20 0)
              (filter (\<lambda>b. bar_date b = d) data)"
  using assms
  by (auto simp: identify_daily_amd_cycle_def session_times_def fill_session_def
      session_data_def put_phase_def empty_phase_def Let_def
      split: option.splits if_splits sum.splits)

lemma amd_phases_cover_day:
  assumes "identify_daily_amd_cycle data target_date = Inr (Some c)"
  shows "set (phase_data (accumulation c)) \<union> set (phase_data (manipulation c))
           \<union> set (phase_data (distribution c))
         = {b \<in> set data. bar_date b = cycle_date c}"
proof -
  from assms obtain d where "cycle_date c = d"
    and "phase_data (accumulation c)
          = filter (\<lambda>b. time_of_day 20 0 \<le> bar_time b \<or> bar_time b \<le> time_of_day 5 0)
              (filter (\<lambda>b. bar_date b = d) data)"
    and "phase_data (manipulation c)
          = filter (\<lambda>b. time_of_day 5 0 \<le> bar_time b \<and> bar_time b \<le> time_of_day 11 0)
              (filter (\<lambda>b. bar_date b = d) data)"
    and "phase_data (distribution c)
          = filter (\<lambda>b. time_of_day 11 0 \<le> bar_time b \<and> bar_time b \<le> time_of_day 20 0)
              (filter (\<lambda>b. bar_date b = d) data)"
    by (rule amd_cycle_phase_data)
  then show ?thesis by (auto simp: time_of_day_def)
qed

lemma amd_phases_disjoint_off_boundaries:
  assumes "identify_daily_amd_cycle data target_date = Inr (Some c)"
    and "\<forall>b \<in> set data. bar_time b \<notin> {time_of_day 5 0, time_of_day 11 0, time_of_day 20 0}"
  shows "set (phase_data (accumulation c)) \<inter> set (phase_data (manipulation c)) = {}
         \<and> set (phase_data (manipulation c)) \<inter> set (phase_data (distribution c)) = {}
         \<and> set (phase_data (accumulation c)) \<inter> set (phase_data (distribution c)) = {}"
proof -
  from assms(1) obtain d where "cycle_date c = d"
    and "phase_data (accumulation c)
          = filter (\<lambda>b. time_of_day 20 0 \<le> bar_time b \<or> bar_time b \<le> time_of_day 5 0)
              (filter (\<lambda>b. bar_date b = d) data)"
    and "phase_data (manipulation c)
          = filter (\<lambda>b. time_of_day 5 0 \<le> bar_time b \<and> bar_time b \<le> time_of_day 11 0)
              (filter (\<lambda>b. bar_date b = d) data)"
    and "phase_data (distribution c)
          = filter (\<lambda>b. time_of_day 11 0 \<le> bar_time b \<and> bar_time b \<le> time_of_day 20 0)
              (filter (\<lambda>b. bar_date b = d) data)"
    by (rule amd_cycle_phase_data)
  with assms(2) show ?thesis by (fastforce simp: time_of_day_def)
qed

section \<open>Floating-point special values\<close>

text \<open>
  Where the code divides numpy floats, a zero divisor raises nothing: the quotient is
  an infinity or NaN. \<open>fval\<close> adds these three values to the reals, with the IEEE
  rules for them; finite results are exact, and zero is unsigned.
\<close>

datatype fval = Fin real | PosInf | NegInf | NaN

fun fneg :: "fval \<Rightarrow> fval" where
  "fneg (Fin a) = Fin (- a)"
| "fneg PosInf = NegInf"
| "fneg NegInf = PosInf"
| "fneg NaN = NaN"

fun fadd :: "fval \<Rightarrow> fval \<Rightarrow> fval" where
  "fadd NaN _ = NaN"
| "fadd _ NaN = NaN"
| "fadd (Fin a) (Fin b) = Fin (a + b)"
| "fadd PosInf NegInf = NaN"
| "fadd NegInf PosInf = NaN"
| "fadd PosInf _ = PosInf"
| "fadd NegInf _ = NegInf"
| "fadd (Fin a) b = b"

definition fsub :: "fval \<Rightarrow> fval \<Rightarrow> fval" where
  "fsub a b = fadd a (fneg b)"

definition inf_of_sign :: "real \<Rightarrow> fval" where
  "inf_of_sign a = (if a = 0 then NaN else if 0 < a then PosInf else NegInf)"

fun fmul :: "fval \<Rightarrow> fval \<Rightarrow> fval" where
  "fmul NaN _ = NaN"
| "fmul _ NaN = NaN"
| "fmul (Fin a) (Fin b) = Fin (a * b)"
| "fmul (Fin a) PosInf = inf_of_sign a"
| "fmul (Fin a) NegInf = inf_of_sign (- a)"
| "fmul PosInf (Fin b) = inf_of_sign b"
| "fmul NegInf (Fin b) = inf_of_sign (- b)"
| "fmul PosInf PosInf = PosInf"
| "fmul NegInf NegInf = PosInf"
| "fmul PosInf NegInf = NegInf"
| "fmul NegInf PosInf = NegInf"

fun fdiv :: "fval \<Rightarrow> fval \<Rightarrow> fval" where
  "fdiv NaN _ = NaN"
| "fdiv _ NaN = NaN"
| "fdiv (Fin a) (Fin b) = (if b = 0 then inf_of_sign a else Fin (a / b))"
| "fdiv (Fin a) _ = Fin 0"
| "fdiv PosInf (Fin b) = (if 0 \<le> b then PosInf else NegInf)"
| "fdiv NegInf (Fin b) = (if 0 \<le> b then NegInf else PosInf)"
| "fdiv _ _ = NaN"

fun fsqrt :: "fval \<Rightarrow> fval" where
  "fsqrt (Fin a) = (if a < 0 then NaN else Fin (sqrt a))"
| "fsqrt PosInf = PosInf"
| "fsqrt NegInf = NaN"
| "fsqrt NaN = NaN"

fun fabs :: "fval \<Rightarrow> fval" where
  "fabs (Fin a) = Fin \<bar>a\<bar>"
| "fabs PosInf = PosInf"
| "fabs NegInf = PosInf"
| "fabs NaN = NaN"

text \<open>\<open>a < b\<close> on floats; every comparison with NaN is false.\<close>

fun fless :: "fval \<Rightarrow> fval \<Rightarrow> bool" where
  "fless NaN _ = False"
| "fless _ NaN = False"
| "fless (Fin a) (Fin b) = (a < b)"
| "fless NegInf NegInf = False"
| "fless NegInf _ = True"
| "fless _ NegInf = False"
| "fless PosInf _ = False"
| "fless (Fin a) PosInf = True"

definition is_nan :: "fval \<Rightarrow> bool" where
  "is_nan v = (case v of NaN \<Rightarrow> True | _ \<Rightarrow> False)"

subsection \<open>pandas reductions\<close>

text \<open>
  \<open>mean\<close>, \<open>std\<close> (with one delta degree of freedom), \<open>min\<close> and \<open>max\<close> of a pandas
  series skip the NaN entries; the result is NaN when too few entries are left.
\<close>

definition fsum :: "fval list \<Rightarrow> fval" where
  "fsum xs = foldl fadd (Fin 0) xs"

definition dropna :: "fval list \<Rightarrow> fval list" where
  "dropna xs = filter (\<lambda>v. \<not> is_nan v) xs"

definition series_mean :: "fval list \<Rightarrow> fval" where
  "series_mean xs =
     (let ys = dropna xs
      in if ys = [] then NaN else fdiv (fsum ys) (Fin (real (length ys))))"

definition series_var :: "fval list \<Rightarrow> fval" where
  "series_var xs =
     (let ys = dropna xs
      in if length ys \<le> 1 then NaN
         else (let avg = fdiv (fsum ys) (Fin (real (length ys)))
               in fdiv (fsum (map (\<lambda>y. fmul (fsub avg y) (fsub avg y)) ys))
                    (Fin (real (length ys - 1)))))"

definition series_std :: "fval list \<Rightarrow> fval" where
  "series_std xs = fsqrt (series_var xs)"

definition series_min :: "fval list \<Rightarrow> fval" where
  "series_min xs =
     (case dropna xs of
        [] \<Rightarrow> NaN
      | y # ys \<Rightarrow> foldl (\<lambda>m v. if fless v m then v else m) y ys)"

text \<open>
  \<open>pct_change\<close>: the first entry is NaN, every later one is the ratio to its
  predecessor minus one.
\<close>

fun pct_change_from :: "real \<Rightarrow> real list \<Rightarrow> fval list" where
  "pct_change_from prev [] = []"
| "pct_change_from prev (x # xs) = fsub (fdiv (Fin x) (Fin prev)) (Fin 1) # pct_change_from x xs"

definition pct_change :: "real list \<Rightarrow> fval list" where
  "pct_change xs = (case xs of [] \<Rightarrow> [] | x # rest \<Rightarrow> NaN # pct_change_from x rest)"

text \<open>\<open>expanding().max()\<close>: the running maximum.\<close>

fun expanding_max_from :: "real \<Rightarrow> real list \<Rightarrow> real list" where
  "expanding_max_from m [] = []"
| "expanding_max_from m (x # xs) = max m x # expanding_max_from (max m x) xs"

definition expanding_max :: "real list \<Rightarrow> real list" where
  "expanding_max xs = (case xs of [] \<Rightarrow> [] | x # rest \<Rightarrow> x # expanding_max_from x rest)"

section \<open>Trade statistics (RiskManager.get_performance_metrics)\<close>

record trade_metrics =
  total_trades :: nat
  total_return :: real
  win_rate :: real
  average_win :: real
  average_loss :: real
  profit_factor :: fval
  return_percentage :: fval

definition np_mean :: "real list \<Rightarrow> real" where
  "np_mean xs = sum_list xs / real (length xs)"

text \<open>
  The result is the empty dict (\<open>None\<close>) for an empty trade history. The realized
  P&L values are numpy floats when the prices come from a data frame, as in the
  backtest, so the division by the initial capital follows \<open>fdiv\<close>.
\<close>

definition get_performance_metrics :: "risk_manager \<Rightarrow> trade_metrics option" where
  "get_performance_metrics s =
     (if trade_history s = [] then None
      else
        (let pnls = map tr_realized_pnl (trade_history s);
             total_return = sum_list pnls;
             win_rate = real (length (filter (\<lambda>pnl. 0 < pnl) pnls)) / real (length pnls);
             avg_win = (if list_ex (\<lambda>pnl. 0 < pnl) pnls
                        then np_mean (filter (\<lambda>pnl. 0 < pnl) pnls) else 0);
             avg_loss = (if list_ex (\<lambda>pnl. pnl < 0) pnls
                         then np_mean (filter (\<lambda>pnl. pnl < 0) pnls) else 0);
             profit_factor = (if avg_loss = 0 then PosInf else Fin \<bar>avg_win / avg_loss\<bar>)
         in Some \<lparr>total_trades = length (trade_history s), total_return = total_return,
                  win_rate = win_rate, average_win = avg_win, average_loss = avg_loss,
                  profit_factor = profit_factor,
                  return_percentage =
                    fmul (fdiv (Fin total_return) (Fin (initial_capital s))) (Fin 100)\<rparr>))"

section \<open>BacktestEngine performance (trading_core/backtesting_engine.py)\<close>

record equity_point =
  eq_timestamp :: "int \<times> nat"
  eq_equity :: real
  eq_cash :: real
  eq_unrealized_pnl :: real
  eq_positions :: nat

record performance =
  total_return_pct :: fval
  total_return_usd :: real
  volatility_pct :: fval
  sharpe_ratio :: fval
  max_drawdown_pct :: fval
  calmar_ratio :: fval
  final_equity :: real
  perf_trade_metrics :: "trade_metrics option"

text \<open>
  \<open>_calculate_performance_metrics\<close>: the empty dict (\<open>None\<close>) for an empty equity
  history. The equity curve itself, which the dict also carries, is the input.
\<close>

definition calculate_performance_metrics ::
  "real \<Rightarrow> equity_point list \<Rightarrow> risk_manager \<Rightarrow> performance option" where
  "calculate_performance_metrics initial_cap equity_history rm =
     (if equity_history = [] then None
      else
        (let equity = map eq_equity equity_history;
             total_return = fdiv (Fin (last equity - initial_cap)) (Fin initial_cap);
             daily_return = pct_change equity;
             volatility = fmul (series_std daily_return) (Fin (sqrt 252));
             sharpe_ratio = fdiv (fmul (series_mean daily_return) (Fin 252))
                                 (fmul (series_std daily_return) (Fin (sqrt 252)));
             peak = expanding_max equity;
             drawdown = map (\<lambda>(e, p). fdiv (Fin (e - p)) (Fin p)) (zip equity peak);
             max_drawdown = series_min drawdown
         in Some \<lparr>total_return_pct = fmul total_return (Fin 100),
                  total_return_usd = last equity - initial_cap,
                  volatility_pct = fmul volatility (Fin 100),
                  sharpe_ratio = sharpe_ratio,
                  max_drawdown_pct = fmul max_drawdown (Fin 100),
                  calmar_ratio = (if max_drawdown = Fin 0 then Fin 0
                                  else fdiv (fmul total_return (Fin 100))
                                            (fabs (fmul max_drawdown (Fin 100)))),
                  final_equity = last equity,
                  perf_trade_metrics = get_performance_metrics rm\<rparr>))"

text \<open>An equity history with the given equity values, for examples.\<close>

definition equity_points :: "real list \<Rightarrow> equity_point list" where
  "equity_points es =
     map (\<lambda>e. \<lparr>eq_timestamp = (0, 0), eq_equity = e, eq_cash = e, eq_unrealized_pnl = 0,
              eq_positions = 0\<rparr>) es"

subsection \<open>Properties of the performance figures\<close>

lemma fdiv_by_zero_not_finite: "fdiv v (Fin 0) \<in> {NaN, PosInf, NegInf}"
  by (cases v) (simp_all add: inf_of_sign_def)

text \<open>
  C5: the Sharpe ratio of an equity history whose daily returns have zero standard
  deviation is never 0: the quotient has the divisor \<open>0 \<times> \<surd>252 = 0\<close>, so it is NaN
  (when the mean return is 0 as well) or an infinity.
\<close>

theorem sharpe_zero_variance_not_finite:
  assumes "calculate_performance_metrics initial_cap equity_history rm = Some p"
    and "series_std (pct_change (map eq_equity equity_history)) = Fin 0"
  shows "sharpe_ratio p \<in> {NaN, PosInf, NegInf}"
proof -
  from assms(1) have "equity_history \<noteq> []"
    by (auto simp: calculate_performance_metrics_def split: if_splits)
  with assms have "sharpe_ratio p
      = fdiv (fmul (series_mean (pct_change (map eq_equity equity_history))) (Fin 252)) (Fin 0)"
    by (auto simp: calculate_performance_metrics_def Let_def)
  then show ?thesis
    using fdiv_by_zero_not_finite by simp
qed

theorem sharpe_zero_variance_not_finite_witness:
  "series_std (pct_change (map eq_equity (equity_points [100000, 100000, 100000]))) = Fin 0
   \<and> map_option sharpe_ratio
        (calculate_performance_metrics 100000 (equity_points [100000, 100000, 100000])
           (init_risk_manager 100000)) = Some NaN
   \<and> NaN \<in> {NaN, PosInf, NegInf}"
proof -
  have std: "series_std (pct_change (map eq_equity (equity_points [100000, 100000, 100000])))
      = Fin 0"
    by (simp add: equity_points_def pct_change_def series_std_def series_var_def dropna_def
        is_nan_def fsum_def fsub_def Let_def)
  have val: "map_option sharpe_ratio
        (calculate_performance_metrics 100000 (equity_points [100000, 100000, 100000])
           (init_risk_manager 100000)) = Some NaN"
    by (simp add: calculate_performance_metrics_def equity_points_def pct_change_def
        series_mean_def series_std_def series_var_def dropna_def is_nan_def fsum_def fsub_def
        inf_of_sign_def Let_def)
  then obtain p where p: "calculate_performance_metrics 100000
      (equity_points [100000, 100000, 100000]) (init_risk_manager 100000) = Some p"
    and "sharpe_ratio p = NaN"
    by auto
  with sharpe_zero_variance_not_finite [OF p std] std val show ?thesis by simp
qed

text \<open>The same series with a constant non-zero return: the Sharpe ratio is infinite.\<close>

lemma sharpe_constant_growth_infinite:
  "map_option sharpe_ratio
     (calculate_performance_metrics 1 (equity_points [1, 2, 4]) (init_risk_manager 1))
   = Some PosInf"
  by (simp add: calculate_performance_metrics_def equity_points_def pct_change_def
      series_mean_def series_std_def series_var_def dropna_def is_nan_def fsum_def fsub_def
      inf_of_sign_def Let_def)




section \<open>PowerOfThree: the optimal size\<close>

definition po3_numbers :: "int list" where
  "po3_numbers = [3, 9, 27, 81, 243, 729, 2187, 6561, 19683, 59049, 177147]"

text \<open>\<open>sub in s\<close> on strings.\<close>

fun contains :: "string \<Rightarrow> string \<Rightarrow> bool" where
  "contains sub [] = (sub = [])"
| "contains sub (c # cs) = (take (length sub) (c # cs) = sub \<or> contains sub cs)"

text \<open>
  \<open>rolling(window=5)\<close>: one window for every row that has four predecessors; the
  rows before it give NaN and are dropped by \<open>dropna\<close>.
\<close>

definition rolling_windows :: "nat \<Rightarrow> 'a list \<Rightarrow> 'a list list" where
  "rolling_windows w xs = map (\<lambda>i. take w (drop i xs)) [0..<length xs + 1 - w]"

definition window_swing :: "bar list \<Rightarrow> real" where
  "window_swing win =
     (case win of
        [] \<Rightarrow> 0
      | b # bs \<Rightarrow> fold max (map bar_high bs) (bar_high b) - fold min (map bar_low bs) (bar_low b))"

text \<open>
  The search for the closest PO3 number starts from 27 with an infinite distance
  (\<open>None\<close>) and replaces the candidate only on a strictly smaller distance.
\<close>

definition closest_po3 :: "real \<Rightarrow> int" where
  "closest_po3 avg_swing =
     fst (fold (\<lambda>po3_value (best_po3, min_diff).
                  let diff = \<bar>avg_swing - real_of_int po3_value\<bar>
                  in if (case min_diff of None \<Rightarrow> True | Some m \<Rightarrow> diff < m)
                     then (po3_value, Some diff) else (best_po3, min_diff))
            po3_numbers (27, None))"

text \<open>
  \<open>index_name\<close> is \<open>str(data.index.name)\<close>. The mean of no swing at all is NaN, which
  is closer to no PO3 number than the initial infinity: the default 27 stays.
\<close>

definition get_optimal_po3_size :: "bar list \<Rightarrow> string \<Rightarrow> nat \<Rightarrow> int" where
  "get_optimal_po3_size data index_name lookback_periods =
     (let lookback_periods = (if length data < lookback_periods then length data
                              else lookback_periods);
          recent_data = drop (length data - lookback_periods) data;
          swings = map window_swing (rolling_windows 5 recent_data);
          swings = (if contains ''USD'' index_name
                       \<or> list_ex (\<lambda>pair. contains pair index_name) [''EUR'', ''GBP'', ''JPY'']
                    then map (\<lambda>x. x * 10000) swings else swings)
      in if swings = [] then 27
         else closest_po3 (sum_list swings / real (length swings)))"

section \<open>GoldbachLevels (ict_strategy/ict_goldbach.py)\<close>

record goldbach_level =
  gl_price :: real
  gl_percentage :: nat
  gl_weight :: real
  gl_type :: string

record nearest_level = goldbach_level +
  nl_distance :: real
  nl_level_type :: string
  nl_percentage_key :: string

definition goldbach_levels :: "(string \<times> nat list) list" where
  "goldbach_levels =
     [(''high_low'', [0, 100]), (''order_block'', [11, 89]), (''fair_value_gap'', [17, 83]),
      (''liquidity_void'', [29, 71]), (''breaker'', [41, 59]), (''equilibrium'', [50])]"

definition level_weights :: "(string \<times> real) list" where
  "level_weights =
     [(''high_low'', 1), (''order_block'', 9 / 10), (''fair_value_gap'', 8 / 10),
      (''liquidity_void'', 7 / 10), (''breaker'', 6 / 10), (''equilibrium'', 5 / 10)]"

text \<open>
  \<open>level_weights[level_name]\<close> raises \<open>KeyError\<close> for a name outside the table.
\<close>

definition calculate_goldbach_levels ::
  "real \<Rightarrow> real \<Rightarrow> py_error + (string \<times> (string \<times> goldbach_level) list) list" where
  "calculate_goldbach_levels range_hi range_lo =
     (let range_size = range_hi - range_lo
      in if list_all (\<lambda>entry. fst entry \<in> set (map fst level_weights)) goldbach_levels
         then Inr (map (\<lambda>entry.
                 (fst entry,
                  map (\<lambda>pct. (digits_of pct @ ''%'',
                              \<lparr>gl_price = range_lo + range_size * real pct / 100,
                               gl_percentage = pct,
                               gl_weight = (case map_of level_weights (fst entry) of
                                              Some w \<Rightarrow> w | None \<Rightarrow> 0),
                               gl_type = fst entry\<rparr>))
                      (snd entry)))
               goldbach_levels)
         else Inl KeyError)"

text \<open>
  The nearest level, without a maximal distance (the strategy passes none).
  \<open>nearer_level\<close> is the body of the scan: a level replaces the nearest one so far only
  when it is strictly closer, so the first level of minimal distance is kept.
\<close>

definition nearer_level ::
  "real \<Rightarrow> string \<times> string \<times> goldbach_level \<Rightarrow> nearest_level option \<Rightarrow> nearest_level option" where
  "nearer_level current_price item nearest =
     (let level_data = snd (snd item);
          distance = \<bar>current_price - gl_price level_data\<bar>
      in if (case nearest of None \<Rightarrow> True | Some n \<Rightarrow> distance < nl_distance n)
         then Some (goldbach_level.extend level_data
                      \<lparr>nl_distance = distance, nl_level_type = fst item,
                       nl_percentage_key = fst (snd item)\<rparr>)
         else nearest)"

definition get_nearest_goldbach_level ::
  "real \<Rightarrow> (string \<times> (string \<times> goldbach_level) list) list \<Rightarrow> nearest_level option" where
  "get_nearest_goldbach_level current_price levels =
     fold (nearer_level current_price)
       (concat (map (\<lambda>entry. map (\<lambda>kv. (fst entry, fst kv, snd kv)) (snd entry)) levels))
       None"

section \<open>AMDCycles: the manipulation phase\<close>

record manipulation_analysis =
  session_high :: real
  session_low :: real
  session_range :: real
  opening_price :: real
  closing_price :: real
  manipulation_direction :: string
  manipulation_type :: string
  key_levels :: "real list"

text \<open>
  The empty dict (\<open>None\<close>) for an empty frame. The range percentage is a quotient of
  numpy floats, so a zero opening price gives an infinity or NaN, and NaN is not
  greater than 0.5.
\<close>

definition analyze_manipulation_phase :: "bar list \<Rightarrow> manipulation_analysis option" where
  "analyze_manipulation_phase manipulation_data =
     (case manipulation_data of
        [] \<Rightarrow> None
      | b # bs \<Rightarrow>
          (let high = fold max (map bar_high bs) (bar_high b);
               low = fold min (map bar_low bs) (bar_low b);
               range_size = high - low;
               opening = bar_open b;
               closing = bar_close (last manipulation_data);
               range_percentage = fmul (fdiv (Fin range_size) (Fin opening)) (Fin 100)
           in Some \<lparr>session_high = high, session_low = low, session_range = range_size,
                    opening_price = opening, closing_price = closing,
                    manipulation_direction = (if opening < closing then ''bullish'' else ''bearish''),
                    manipulation_type = (if fless (Fin (1 / 2)) range_percentage
                                         then ''range_expansion'' else ''consolidation''),
                    key_levels = [low, low + range_size * (33 / 100), low + range_size * (50 / 100),
                                  low + range_size * (67 / 100), high]\<rparr>))"

section \<open>HIPPOPatterns (ict_strategy/ict_hippo.py)\<close>

record gap_info =
  gap_size :: real
  gap_type :: "string option"

definition calculate_gap :: "bar \<Rightarrow> bar \<Rightarrow> gap_info" where
  "calculate_gap candle1 candle2 =
     (let g = (if bar_high candle1 < bar_low candle2
               then \<lparr>gap_size = bar_low candle2 - bar_high candle1, gap_type = Some ''up''\<rparr>
               else if bar_high candle2 < bar_low candle1
               then \<lparr>gap_size = bar_low candle1 - bar_high candle2, gap_type = Some ''down''\<rparr>
               else \<lparr>gap_size = 0, gap_type = None\<rparr>)
      in g\<lparr>gap_size := gap_size g * 10000\<rparr>)"

definition calculate_hidden_level :: "bar \<Rightarrow> bar \<Rightarrow> bar \<Rightarrow> string \<Rightarrow> real" where
  "calculate_hidden_level candle1 candle2 candle3 direction =
     (if direction = ''bullish''
      then (min (bar_open candle1) (bar_close candle1) + min (bar_open candle3) (bar_close candle3)) / 2
      else if direction = ''bearish''
      then (max (bar_open candle1) (bar_close candle1) + max (bar_open candle3) (bar_close candle3)) / 2
      else if max (bar_high candle1) (bar_high candle3) < bar_high candle2 then bar_high candle2
      else bar_low candle2)"

record hippo_pattern =
  is_hippo :: bool
  pattern_type :: "string option"
  gap1_size :: real
  gap2_size :: real
  gap_ratio :: real
  hidden_level :: "real option"
  pattern_direction :: "string option"
  pattern_timestamp :: "(int \<times> nat) option"
  candle_index :: "nat option"

definition hippo_min_gap_size :: real where
  "hippo_min_gap_size = 5"

definition hippo_max_gap_ratio :: real where
  "hippo_max_gap_ratio = 2"

definition analyze_hippo_pattern :: "bar \<Rightarrow> bar \<Rightarrow> bar \<Rightarrow> hippo_pattern" where
  "analyze_hippo_pattern candle1 candle2 candle3 =
     (let pattern = \<lparr>is_hippo = False, pattern_type = None, gap1_size = 0, gap2_size = 0,
                     gap_ratio = 0, hidden_level = None, pattern_direction = None,
                     pattern_timestamp = None, candle_index = None\<rparr>;
          gap1 = calculate_gap candle1 candle2;
          gap2 = calculate_gap candle2 candle3
      in if 0 < gap_size gap1 \<and> 0 < gap_size gap2 then
           (let pattern = pattern\<lparr>gap1_size := gap_size gap1, gap2_size := gap_size gap2,
                            gap_ratio := max (gap_size gap1) (gap_size gap2)
                                         / min (gap_size gap1) (gap_size gap2)\<rparr>
            in if hippo_min_gap_size \<le> gap_size gap1 \<and> hippo_min_gap_size \<le> gap_size gap2
                  \<and> gap_ratio pattern \<le> hippo_max_gap_ratio then
                 (let pattern = pattern\<lparr>is_hippo := True\<rparr>
                  in if gap_type gap1 = Some ''up'' \<and> gap_type gap2 = Some ''up'' then
                       pattern\<lparr>pattern_type := Some ''bullish_continuation'',
                              pattern_direction := Some ''bullish'',
                              hidden_level := Some (calculate_hidden_level candle1 candle2 candle3 ''bullish'')\<rparr>
                     else if gap_type gap1 = Some ''down'' \<and> gap_type gap2 = Some ''down'' then
                       pattern\<lparr>pattern_type := Some ''bearish_continuation'',
                              pattern_direction := Some ''bearish'',
                              hidden_level := Some (calculate_hidden_level candle1 candle2 candle3 ''bearish'')\<rparr>
                     else if gap_type gap1 = gap_type gap2 then pattern
                     else
                       pattern\<lparr>pattern_type := Some ''reversal'',
                              pattern_direction := Some ''reversal'',
                              hidden_level := Some (calculate_hidden_level candle1 candle2 candle3 ''reversal'')\<rparr>)
               else pattern)
         else pattern)"

text \<open>
  The scan over the middle candles \<open>1 \<dots> len - 2\<close>; the three candles are read
  at indices inside the frame.
\<close>

definition identify_hippo_patterns :: "bar list \<Rightarrow> hippo_pattern list" where
  "identify_hippo_patterns data =
     (if length data < 3 then []
      else concat (map (\<lambda>i.
             let hp = analyze_hippo_pattern (data ! (i - 1)) (data ! i) (data ! (i + 1))
             in if is_hippo hp
                then [hp\<lparr>pattern_timestamp := Some (bar_timestamp (data ! i)),
                         candle_index := Some i\<rparr>]
                else [])
           [1..<length data - 1]))"

section \<open>ICTStrategy (ict_strategy/ict_strategy.py)\<close>

record price_position =
  zone :: string
  position_percentage :: real
  strength :: real

definition analyze_price_position :: "real \<Rightarrow> dealing_range \<Rightarrow> price_position" where
  "analyze_price_position current_price po3_range =
     (let range_size = range_high po3_range - range_low po3_range;
          position_pct = (current_price - range_low po3_range) / range_size
      in if position_pct \<le> 33 / 100
         then \<lparr>zone = ''discount'', position_percentage = position_pct,
               strength = (33 / 100 - position_pct) / (33 / 100)\<rparr>
         else if 67 / 100 \<le> position_pct
         then \<lparr>zone = ''premium'', position_percentage = position_pct,
               strength = (position_pct - 67 / 100) / (33 / 100)\<rparr>
         else \<lparr>zone = ''equilibrium'', position_percentage = position_pct,
               strength = 1 - \<bar>position_pct - 1 / 2\<bar> / (17 / 100)\<rparr>)"

text \<open>\<open>now\<close> is the time of day that \<open>datetime.now().time()\<close> returns.\<close>

definition identify_current_amd_phase :: "nat \<Rightarrow> string" where
  "identify_current_amd_phase now =
     (if time_of_day 20 0 \<le> now \<or> now \<le> time_of_day 5 0 then ''accumulation''
      else if time_of_day 5 0 \<le> now \<and> now \<le> time_of_day 11 0 then ''manipulation''
      else ''distribution'')"

definition analyze_current_manipulation :: "amd_cycle option \<Rightarrow> manipulation_analysis option" where
  "analyze_current_manipulation cycle =
     (case cycle of
        None \<Rightarrow> None
      | Some c \<Rightarrow>
          (if phase_data (manipulation c) = [] then None
           else analyze_manipulation_phase (phase_data (manipulation c))))"

text \<open>
  The analysis snapshot. Of the dict that \<open>analyze_market\<close> builds it holds every entry
  that a signal rule or the confluence score reads, and the timestamp; the entries
  \<open>institutional_levels\<close>, \<open>partition_info\<close> and \<open>lookback_clues\<close> are computed from the
  same inputs by arithmetic that raises nothing and are read by no rule.
\<close>

record market_analysis =
  ma_timestamp :: "int \<times> nat"
  ma_current_price :: real
  ma_optimal_size :: int
  ma_dealing_range :: dealing_range
  ma_price_position :: price_position
  ma_goldbach_levels :: "(string \<times> (string \<times> goldbach_level) list) list"
  ma_nearest_level :: "nearest_level option"
  ma_current_cycle :: "amd_cycle option"
  ma_current_phase :: string
  ma_manipulation_analysis :: "manipulation_analysis option"
  ma_patterns :: "hippo_pattern list"

text \<open>
  \<open>analyze_market\<close> returns the empty dict (\<open>None\<close>) for fewer than 100 bars. An
  exception of a component is not caught here.
\<close>

definition analyze_market ::
  "string \<Rightarrow> bar list \<Rightarrow> string \<Rightarrow> nat \<Rightarrow> py_error + market_analysis option" where
  "analyze_market asset_type data index_name now =
     (if length data < 100 then Inr None
      else
        (let current_price = bar_close (last data);
             optimal_po3 = get_optimal_po3_size data index_name 60
         in case calculate_dealing_range current_price optimal_po3 asset_type of
              Inl e \<Rightarrow> Inl e
            | Inr po3_range \<Rightarrow>
                (case calculate_goldbach_levels (range_high po3_range) (range_low po3_range) of
                   Inl e \<Rightarrow> Inl e
                 | Inr levels \<Rightarrow>
                     (case identify_daily_amd_cycle data None of
                        Inl e \<Rightarrow> Inl e
                      | Inr amd_cycle \<Rightarrow>
                          Inr (Some
                            \<lparr>ma_timestamp = bar_timestamp (last data),
                             ma_current_price = current_price,
                             ma_optimal_size = optimal_po3,
                             ma_dealing_range = po3_range,
                             ma_price_position = analyze_price_position current_price po3_range,
                             ma_goldbach_levels = levels,
                             ma_nearest_level = get_nearest_goldbach_level current_price levels,
                             ma_current_cycle = amd_cycle,
                             ma_current_phase = identify_current_amd_phase now,
                             ma_manipulation_analysis = analyze_current_manipulation amd_cycle,
                             ma_patterns = identify_hippo_patterns data\<rparr>)))))"

subsection \<open>Candidate signals\<close>







subsection \<open>The confluence score\<close>




subsection \<open>Properties of the confluence score\<close>












subsection \<open>The analysis returns a snapshot\<close>

lemma digit_char_is_digit: "d < 10 \<Longrightarrow> is_digit (digit_char d)"
proof -
  assume "d < 10"
  then have "d \<in> {0, 1, 2, 3, 4, 5, 6, 7, 8, 9}"
    by auto
  then show ?thesis
    by (auto simp: digit_char_def is_digit_def)
qed

lemma digits_of_digits: "list_all is_digit (digits_of n) \<and> digits_of n \<noteq> []"
proof (induction n rule: digits_of.induct)
  case (1 n)
  show ?case
  proof (cases "n < 10")
    case True
    then show ?thesis
      by (subst (1 2) digits_of.simps) (simp add: digit_char_is_digit)
  next
    case False
    with 1 show ?thesis
      by (subst (1 2) digits_of.simps) (simp add: digit_char_is_digit)
  qed
qed

lemma is_digit_not_mark: "is_digit c \<Longrightarrow> c \<noteq> CHR ''.'' \<and> c \<noteq> CHR ''-''"
  by (auto simp: is_digit_def)

lemma py_int_digits:
  assumes "list_all is_digit ds" and "ds \<noteq> []"
  shows "\<exists>v. py_int ds = Inr v" and "\<exists>v. py_int (CHR ''-'' # ds) = Inr v"
proof -
  from assms have "hd ds \<noteq> CHR ''-''"
    by (cases ds) (auto dest: is_digit_not_mark)
  with assms show "\<exists>v. py_int ds = Inr v"
    by (simp add: py_int_def Let_def)
  from assms show "\<exists>v. py_int (CHR ''-'' # ds) = Inr v"
    by (simp add: py_int_def Let_def)
qed

lemma forex_base_price_ok:
  "\<exists>v. py_int (take 5 (filter (\<lambda>c. c \<noteq> CHR ''.'') (format_5f x))) = Inr v"
proof -
  define n where "n = nat (round_half_even (\<bar>x\<bar> * 100000))"
  define frac where "frac = replicate (5 - length (digits_of (n mod 100000))) (CHR ''0'')
      @ digits_of (n mod 100000)"
  define body where "body = digits_of (n div 100000) @ frac"
  have zero: "is_digit (CHR ''0'')"
    by (simp add: is_digit_def)
  have frac: "list_all is_digit frac" "5 \<le> length frac"
    using digits_of_digits [of "n mod 100000"] zero by (auto simp: frac_def list_all_iff)
  have "1 \<le> length (digits_of (n div 100000))"
    using digits_of_digits [of "n div 100000"] by (simp add: Suc_le_eq)
  with frac(2) have len: "6 \<le> length body"
    by (simp add: body_def)
  have body: "list_all is_digit body"
    using digits_of_digits [of "n div 100000"] frac(1) by (simp add: body_def)
  have nodot: "filter (\<lambda>c. c \<noteq> CHR ''.'') body = body"
    using body by (auto simp: filter_id_conv list_all_iff dest: is_digit_not_mark)
  have shape: "filter (\<lambda>c. c \<noteq> CHR ''.'') (format_5f x) = (if x < 0 then ''-'' else []) @ body"
  proof -
    have "filter (\<lambda>c. c \<noteq> CHR ''.'') (digits_of (n div 100000)) = digits_of (n div 100000)"
      and "filter (\<lambda>c. c \<noteq> CHR ''.'') frac = frac"
      using body by (auto simp: body_def filter_id_conv list_all_iff dest: is_digit_not_mark)
    then show ?thesis
      by (simp add: format_5f_def Let_def n_def [symmetric] frac_def [symmetric] body_def)
  qed
  show ?thesis
  proof (cases "x < 0")
    case True
    have "list_all is_digit (take 4 body)" "take 4 body \<noteq> []"
      using body len by (auto simp: list_all_iff dest: in_set_takeD)
    from py_int_digits(2) [OF this] True shape show ?thesis
      by (simp add: take_Cons')
  next
    case False
    have "list_all is_digit (take 5 body)" "take 5 body \<noteq> []"
      using body len by (auto simp: list_all_iff dest: in_set_takeD)
    from py_int_digits(1) [OF this] False shape show ?thesis
      by simp
  qed
qed

lemma calculate_dealing_range_ok:
  assumes "po3_number \<noteq> 0"
  shows "\<exists>r. calculate_dealing_range current_price po3_number asset_type = Inr r"
proof (cases "asset_type = ''forex''")
  case True
  from forex_base_price_ok [of current_price] obtain v where
    "py_int (take 5 (filter (\<lambda>c. c \<noteq> CHR ''.'') (format_5f current_price))) = Inr v" ..
  with True assms show ?thesis
    by (simp add: calculate_dealing_range_def Let_def)
next
  case False
  with assms show ?thesis
    by (simp add: calculate_dealing_range_def Let_def)
qed

lemma closest_po3_step_pos:
  assumes "0 < fst acc" and "\<forall>v \<in> set vs. 0 < v"
  shows "0 < fst (fold (\<lambda>po3_value (best_po3, min_diff).
                  let diff = \<bar>avg_swing - real_of_int po3_value\<bar>
                  in if (case min_diff of None \<Rightarrow> True | Some m \<Rightarrow> diff < m)
                     then (po3_value, Some diff) else (best_po3, min_diff)) vs acc)"
  using assms
  by (induction vs arbitrary: acc) (auto simp: Let_def split: prod.splits)

lemma get_optimal_po3_size_pos: "0 < get_optimal_po3_size data index_name lookback_periods"
proof -
  have "0 < closest_po3 avg" for avg
    unfolding closest_po3_def
    by (rule closest_po3_step_pos) (simp_all add: po3_numbers_def)
  then show ?thesis
    by (simp add: get_optimal_po3_size_def Let_def)
qed

lemma calculate_goldbach_levels_ok: "\<exists>levels. calculate_goldbach_levels range_hi range_lo = Inr levels"
  by (simp add: calculate_goldbach_levels_def goldbach_levels_def level_weights_def Let_def)

lemma identify_daily_amd_cycle_ok:
  assumes "data \<noteq> []"
  shows "\<exists>c. identify_daily_amd_cycle data None = Inr c"
  using assms by (simp add: identify_daily_amd_cycle_def Let_def)

lemma analyze_market_returns:
  assumes "100 \<le> length data"
  shows "\<exists>a. analyze_market asset_type data index_name now = Inr (Some a)"
proof -
  from assms have ne: "data \<noteq> []" by auto
  obtain r where r: "calculate_dealing_range (bar_close (last data))
      (get_optimal_po3_size data index_name 60) asset_type = Inr r"
    using calculate_dealing_range_ok get_optimal_po3_size_pos
    by (metis less_irrefl)
  obtain levels where l: "calculate_goldbach_levels (range_high r) (range_low r) = Inr levels"
    using calculate_goldbach_levels_ok by blast
  obtain c where c: "identify_daily_amd_cycle data None = Inr c"
    using identify_daily_amd_cycle_ok [OF ne] by blast
  from assms r l c show ?thesis
    by (simp add: analyze_market_def Let_def)
qed

text \<open>
  C4 as stated puts the threshold at 50 bars. \<open>ICTStrategy.analyze_market\<close> returns the
  empty snapshot for every window shorter than 100 bars, so also for one of 50 bars.
\<close>

theorem analyze_market_fifty_bars_empty_counterexample:
  "50 \<le> length (replicate 50 (flat_bar 1 (time_of_day 8 0) 100))
   \<and> analyze_market ''forex'' (replicate 50 (flat_bar 1 (time_of_day 8 0) 100)) ''None''
        (time_of_day 8 0) = Inr None"
  by (simp add: analyze_market_def)

text \<open>
  C4, amended: with at least 100 bars the analysis returns a snapshot, with fewer than
  100 bars it returns the empty snapshot; in neither case does it raise.
\<close>

theorem analyze_market_snapshot_threshold:
  "(length data < 100 \<longrightarrow> analyze_market asset_type data index_name now = Inr None)
   \<and> (100 \<le> length data
        \<longrightarrow> (\<exists>a. analyze_market asset_type data index_name now = Inr (Some a)))"
  using analyze_market_returns [of data asset_type index_name now]
  by (simp add: analyze_market_def)

theorem analyze_market_snapshot_threshold_witness:
  "length (replicate 99 (flat_bar 1 (time_of_day 8 0) 100)) < 100
   \<and> analyze_market ''forex'' (replicate 99 (flat_bar 1 (time_of_day 8 0) 100)) ''None''
        (time_of_day 8 0) = Inr None
   \<and> 100 \<le> length (replicate 100 (flat_bar 1 (time_of_day 8 0) 100))
   \<and> (\<exists>a. analyze_market ''forex'' (replicate 100 (flat_bar 1 (time_of_day 8 0) 100)) ''None''
        (time_of_day 8 0) = Inr (Some a))"
  using analyze_market_snapshot_threshold
          [of "replicate 99 (flat_bar 1 (time_of_day 8 0) 100)" "''forex''" "''None''"
              "time_of_day 8 0"]
        analyze_market_snapshot_threshold
          [of "replicate 100 (flat_bar 1 (time_of_day 8 0) 100)" "''forex''" "''None''"
              "time_of_day 8 0"]
  by simp

section \<open>StandaloneICTStrategy (ict_strategy/standalone_ict_strategy.py)\<close>

text \<open>
  The standalone strategy has its own \<open>analyze_market\<close>, over the same components. It
  asks for 50 bars, clips the zone strength to [0, 1], catches every exception of the
  analysis and returns the empty dict (\<open>None\<close>) then. Its snapshot has no
  \<open>manipulation_analysis\<close> entry, for which \<open>None\<close> stands in the record.
\<close>

definition standalone_analyze_price_position :: "real \<Rightarrow> dealing_range \<Rightarrow> price_position" where
  "standalone_analyze_price_position current_price po3_range =
     (let range_size = range_high po3_range - range_low po3_range
      in if range_size = 0
         then \<lparr>zone = ''equilibrium'', position_percentage = 1 / 2, strength = 0\<rparr>
         else
           (let position_pct = (current_price - range_low po3_range) / range_size;
                zs = (if position_pct \<le> 33 / 100
                      then (''discount'', (33 / 100 - position_pct) / (33 / 100))
                      else if 67 / 100 \<le> position_pct
                      then (''premium'', (position_pct - 67 / 100) / (33 / 100))
                      else (''equilibrium'', 1 - \<bar>position_pct - 1 / 2\<bar> / (17 / 100)))
            in \<lparr>zone = fst zs, position_percentage = position_pct,
                 strength = max 0 (min 1 (snd zs))\<rparr>))"

definition standalone_analyze_market ::
  "string \<Rightarrow> bar list \<Rightarrow> string \<Rightarrow> nat \<Rightarrow> market_analysis option" where
  "standalone_analyze_market asset_type data index_name now =
     (if length data < 50 then None
      else
        (let current_price = bar_close (last data);
             optimal_po3 = get_optimal_po3_size data index_name 60
         in case calculate_dealing_range current_price optimal_po3 asset_type of
              Inl e \<Rightarrow> None
            | Inr po3_range \<Rightarrow>
                (case calculate_goldbach_levels (range_high po3_range) (range_low po3_range) of
                   Inl e \<Rightarrow> None
                 | Inr levels \<Rightarrow>
                     (case identify_daily_amd_cycle data None of
                        Inl e \<Rightarrow> None
                      | Inr amd_cycle \<Rightarrow>
                          Some
                            \<lparr>ma_timestamp = bar_timestamp (last data),
                             ma_current_price = current_price,
                             ma_optimal_size = optimal_po3,
                             ma_dealing_range = po3_range,
                             ma_price_position =
                               standalone_analyze_price_position current_price po3_range,
                             ma_goldbach_levels = levels,
                             ma_nearest_level = get_nearest_goldbach_level current_price levels,
                             ma_current_cycle = amd_cycle,
                             ma_current_phase = identify_current_amd_phase now,
                             ma_manipulation_analysis = None,
                             ma_patterns = identify_hippo_patterns data\<rparr>))))"

text \<open>
  For the standalone strategy the threshold is 50 bars: below it the snapshot is
  empty, from it on a snapshot is returned.
\<close>

lemma standalone_analyze_market_threshold:
  "(length data < 50 \<longrightarrow> standalone_analyze_market asset_type data index_name now = None)
   \<and> (50 \<le> length data
        \<longrightarrow> (\<exists>a. standalone_analyze_market asset_type data index_name now = Some a))"
proof (intro conjI impI)
  assume "length data < 50"
  then show "standalone_analyze_market asset_type data index_name now = None"
    by (simp add: standalone_analyze_market_def)
next
  assume len: "50 \<le> length data"
  then have ne: "data \<noteq> []" by auto
  obtain r where r: "calculate_dealing_range (bar_close (last data))
      (get_optimal_po3_size data index_name 60) asset_type = Inr r"
    using calculate_dealing_range_ok get_optimal_po3_size_pos
    by (metis less_irrefl)
  obtain levels where l: "calculate_goldbach_levels (range_high r) (range_low r) = Inr levels"
    using calculate_goldbach_levels_ok by blast
  obtain c where c: "identify_daily_amd_cycle data None = Inr c"
    using identify_daily_amd_cycle_ok [OF ne] by blast
  from len r l c show "\<exists>a. standalone_analyze_market asset_type data index_name now = Some a"
    by (simp add: standalone_analyze_market_def Let_def)
qed

section \<open>A window with a candidate\<close>








section \<open>RiskManager: sizing and the portfolio summary\<close>




section \<open>BacktestEngine: the simulation loop (trading_core/backtesting_engine.py)\<close>



text \<open>
  The loop is observed through the calls it makes on the RiskManager and on the
  strategy, in the order in which it makes them.
\<close>

datatype call =
    UpdatePositionPnl symbol real
  | CheckStopLoss symbol real bool
  | CheckTakeProfit symbol real bool
  | ClosePosition symbol real string
  | ExecuteStrategy
  | CalculateEntryExit symbol
  | CalculatePositionSize symbol int
  | AddPosition symbol bool

record sim_state =
  sim_calls :: "call list"
  sim_equity_history :: "equity_point list"
  sim_trade_log :: "trade option list"
  sim_rm :: risk_manager


text \<open>
  The body of the loop over the open positions, for one symbol: mark to market, then
  the stop-loss check, and the take-profit check only when the stop is not hit.
\<close>

definition manage_position ::
  "(symbol \<times> bar list) list \<Rightarrow> nat \<Rightarrow> symbol \<Rightarrow> sim_state \<Rightarrow> py_error + sim_state" where
  "manage_position current_data now symbol st =
     (case map_of current_data symbol of
        None \<Rightarrow> Inr st
      | Some window \<Rightarrow>
          (let current_price = bar_close (last window)
           in case update_position_pnl (sim_rm st) symbol current_price of
                Inl e \<Rightarrow> Inl e
              | Inr rm1 \<Rightarrow>
                  if check_stop_loss rm1 symbol current_price then
                    (case close_position rm1 symbol current_price ''STOP_LOSS'' now of
                       Inl e \<Rightarrow> Inl e
                     | Inr (tr, rm2) \<Rightarrow>
                         Inr (st\<lparr>sim_calls := sim_calls st
                                    @ [UpdatePositionPnl symbol current_price,
                                       CheckStopLoss symbol current_price True,
                                       ClosePosition symbol current_price ''STOP_LOSS''],
                                 sim_trade_log := sim_trade_log st @ [tr], sim_rm := rm2\<rparr>))
                  else if check_take_profit rm1 symbol current_price then
                    (case close_position rm1 symbol current_price ''TAKE_PROFIT'' now of
                       Inl e \<Rightarrow> Inl e
                     | Inr (tr, rm2) \<Rightarrow>
                         Inr (st\<lparr>sim_calls := sim_calls st
                                    @ [UpdatePositionPnl symbol current_price,
                                       CheckStopLoss symbol current_price False,
                                       CheckTakeProfit symbol current_price True,
                                       ClosePosition symbol current_price ''TAKE_PROFIT''],
                                 sim_trade_log := sim_trade_log st @ [tr], sim_rm := rm2\<rparr>))
                  else
                    Inr (st\<lparr>sim_calls := sim_calls st
                               @ [UpdatePositionPnl symbol current_price,
                                  CheckStopLoss symbol current_price False,
                                  CheckTakeProfit symbol current_price False],
                            sim_rm := rm1\<rparr>)))"

fun manage_positions ::
  "(symbol \<times> bar list) list \<Rightarrow> nat \<Rightarrow> symbol list \<Rightarrow> sim_state \<Rightarrow> py_error + sim_state" where
  "manage_positions current_data now [] st = Inr st"
| "manage_positions current_data now (symbol # symbols) st =
     (case manage_position current_data now symbol st of
        Inl e \<Rightarrow> Inl e
      | Inr st' \<Rightarrow> manage_positions current_data now symbols st')"










subsection \<open>Properties of the simulation loop\<close>





text \<open>
  When the stop is hit at the marked price, the position is closed for the reason
  \<open>STOP_LOSS\<close>, whether or not the target is hit as well.
\<close>

lemma stop_wins_over_target:
  assumes "map_of current_data symbol = Some window"
    and "update_position_pnl (sim_rm st) symbol (bar_close (last window)) = Inr rm1"
    and "check_stop_loss rm1 symbol (bar_close (last window))"
    and "manage_position current_data now symbol st = Inr st'"
  shows "\<exists>t. sim_trade_log st' = sim_trade_log st @ [Some t] \<and> tr_exit_reason t = ''STOP_LOSS''"
  using assms
  by (auto simp: manage_position_def close_position_def check_stop_loss_def Let_def
      split: sum.splits option.splits if_splits)


text \<open>
  When the signals are generated, no open position whose instrument has a window at
  the timestamp is at or beyond its stop or its target on that window's last close.
\<close>

lemma manage_position_others:
  assumes "manage_position current_data now symbol st = Inr st'" and "s \<noteq> symbol"
  shows "map_of (positions (sim_rm st')) s = map_of (positions (sim_rm st)) s"
  using assms
  by (auto simp: manage_position_def update_position_pnl_def close_position_def Let_def
      AList.update_conv' AList.delete_conv'
      split: option.splits sum.splits if_splits prod.splits)

lemma manage_position_own:
  assumes "manage_position current_data now symbol st = Inr st'"
    and "map_of current_data symbol = Some window"
  shows "map_of (positions (sim_rm st')) symbol = None
         \<or> \<not> (check_stop_loss (sim_rm st') symbol (bar_close (last window))
               \<or> check_take_profit (sim_rm st') symbol (bar_close (last window)))"
proof -
  let ?p = "bar_close (last window)"
  from assms obtain rm1 where u: "update_position_pnl (sim_rm st) symbol ?p = Inr rm1"
    by (auto simp: manage_position_def Let_def split: sum.splits)
  show ?thesis
  proof (cases "check_stop_loss rm1 symbol ?p \<or> check_take_profit rm1 symbol ?p")
    case True
    with assms u have "map_of (positions (sim_rm st')) symbol = None"
      by (auto simp: manage_position_def close_position_def Let_def AList.delete_conv'
          split: sum.splits option.splits if_splits prod.splits)
    then show ?thesis ..
  next
    case False
    with assms u have "sim_rm st' = rm1"
      by (auto simp: manage_position_def Let_def split: sum.splits)
    with False show ?thesis by simp
  qed
qed

lemma checks_depend_on_own_position:
  assumes "map_of (positions rm') s = map_of (positions rm) s"
  shows "check_stop_loss rm' s p = check_stop_loss rm s p"
    and "check_take_profit rm' s p = check_take_profit rm s p"
  using assms by (simp_all add: check_stop_loss_def check_take_profit_def)

lemma manage_positions_untriggered:
  assumes "manage_positions current_data now symbols st = Inr st'"
    and "\<forall>s window. s \<notin> set symbols \<and> map_of current_data s = Some window
           \<longrightarrow> \<not> (check_stop_loss (sim_rm st) s (bar_close (last window))
                  \<or> check_take_profit (sim_rm st) s (bar_close (last window)))"
    and "map_of current_data s = Some window"
  shows "\<not> (check_stop_loss (sim_rm st') s (bar_close (last window))
            \<or> check_take_profit (sim_rm st') s (bar_close (last window)))"
  using assms(1,2)
proof (induction symbols arbitrary: st)
  case Nil
  with assms(3) show ?case by simp
next
  case (Cons symbol symbols)
  from Cons.prems(1) obtain st1 where
    one: "manage_position current_data now symbol st = Inr st1"
    and rest: "manage_positions current_data now symbols st1 = Inr st'"
    by (auto split: sum.splits)
  have "\<forall>t w. t \<notin> set symbols \<and> map_of current_data t = Some w
           \<longrightarrow> \<not> (check_stop_loss (sim_rm st1) t (bar_close (last w))
                  \<or> check_take_profit (sim_rm st1) t (bar_close (last w)))"
  proof (intro allI impI)
    fix t w
    assume tw: "t \<notin> set symbols \<and> map_of current_data t = Some w"
    show "\<not> (check_stop_loss (sim_rm st1) t (bar_close (last w))
              \<or> check_take_profit (sim_rm st1) t (bar_close (last w)))"
    proof (cases "t = symbol")
      case True
      with manage_position_own [OF one, of w] tw consider
          "map_of (positions (sim_rm st1)) t = None"
        | "\<not> (check_stop_loss (sim_rm st1) t (bar_close (last w))
              \<or> check_take_profit (sim_rm st1) t (bar_close (last w)))"
        by auto
      then show ?thesis
        by cases (simp_all add: check_stop_loss_def check_take_profit_def)
    next
      case False
      with tw Cons.prems(2) have "\<not> (check_stop_loss (sim_rm st) t (bar_close (last w))
              \<or> check_take_profit (sim_rm st) t (bar_close (last w)))"
        by simp
      with checks_depend_on_own_position [OF manage_position_others [OF one False]]
      show ?thesis by simp
    qed
  qed
  from Cons.IH [OF rest this] show ?case .
qed

lemma no_triggered_position_when_signals_are_generated:
  assumes "manage_positions current_data now (map fst (positions (sim_rm st))) st = Inr st'"
    and "map_of current_data s = Some window"
  shows "\<not> (check_stop_loss (sim_rm st') s (bar_close (last window))
            \<or> check_take_profit (sim_rm st') s (bar_close (last window)))"
proof (rule manage_positions_untriggered [OF assms(1) _ assms(2)])
  show "\<forall>s window. s \<notin> set (map fst (positions (sim_rm st))) \<and> map_of current_data s = Some window
           \<longrightarrow> \<not> (check_stop_loss (sim_rm st) s (bar_close (last window))
                  \<or> check_take_profit (sim_rm st) s (bar_close (last window)))"
  proof (intro allI impI)
    fix s window
    assume "s \<notin> set (map fst (positions (sim_rm st))) \<and> map_of current_data s = Some window"
    then have "map_of (positions (sim_rm st)) s = None"
      by (simp add: map_of_eq_None_iff)
    then show "\<not> (check_stop_loss (sim_rm st) s (bar_close (last window))
                  \<or> check_take_profit (sim_rm st) s (bar_close (last window)))"
      by (simp add: check_stop_loss_def check_take_profit_def)
  qed
qed

















end
